theory Spec2Isabelle
  imports Complex_Main
begin

section \<open>Errors\<close>

text \<open>
  The exceptions the modelled functions can raise. Every function that can raise returns
  a sum: \<open>Inl\<close> carries the exception, \<open>Inr\<close> the ordinary result.
\<close>

datatype error = RuntimeError | IndexError

section \<open>Tiling one axis: \<open>calculate_indexes\<close> (lib/utils.py)\<close>

text \<open>
  \<open>torch.arange(0, stop, step)\<close> on Python integers. The library refuses a zero step and
  a step whose sign disagrees with the bounds; otherwise it returns the
  \<open>\<lceil>stop / step\<rceil>\<close> values \<open>0, step, 2 * step, ...\<close>.
\<close>

definition torch_arange :: "int \<Rightarrow> int \<Rightarrow> error + int list" where
  "torch_arange stop step =
     (if step = 0 then Inl RuntimeError
      else if (0 < step \<and> stop < 0) \<or> (step < 0 \<and> 0 < stop) then Inl RuntimeError
      else Inr (map (\<lambda>k. int k * step) [0..<nat (- ((- stop) div step))]))"

text \<open>
  The \<open>for i, z in enumerate(ind_list)\<close> loop of \<open>calculate_indexes\<close>, entered after
  the skipped iteration \<open>i = 0\<close>: \<open>prev\<close> is \<open>ind_list[i - 1]\<close>, the list holds the
  elements from position \<open>i\<close> on. A window is appended while its upper end stays below
  \<open>padded_image_shape\<close>; the first window that does not fit ends the loop (\<open>break\<close>).
\<close>

fun index_loop :: "int \<Rightarrow> int \<Rightarrow> int \<Rightarrow> int list \<Rightarrow> int list list" where
  "index_loop pad_size padded_image_shape prev [] = []"
| "index_loop pad_size padded_image_shape prev (z # zs) =
     (let z1 = prev;
          z2 = (z - 1) + (2 * pad_size)
      in if z2 < padded_image_shape
         then [z1, z2] # index_loop pad_size padded_image_shape z zs
         else [])"

definition calculate_indexes :: "int \<Rightarrow> int \<Rightarrow> int \<Rightarrow> int \<Rightarrow> error + int list list" where
  "calculate_indexes pad_size eval_image_size image_shape padded_image_shape =
     (if eval_image_size + (2 * pad_size) > image_shape then Inr [[0, image_shape - 1]]
      else
        (case torch_arange image_shape eval_image_size of
           Inl e \<Rightarrow> Inl RuntimeError
         | Inr ind_list \<Rightarrow>
             (let ind = (case ind_list of
                           [] \<Rightarrow> []
                         | z0 # zs \<Rightarrow> index_loop pad_size padded_image_shape z0 zs)
              in if ind = []
                 then Inr [[0, eval_image_size + pad_size * 2],
                           [padded_image_shape - (eval_image_size + pad_size * 2),
                            padded_image_shape]]
                 else Inr (ind @ [[padded_image_shape - (eval_image_size + pad_size * 2),
                                   padded_image_shape - 1]]))))"

text \<open>
  How a returned pair \<open>[z1, z2]\<close> is read. Three of the four places that build a window
  (\<open>[0, image_shape - 1]\<close>, \<open>[z1, z - 1 + 2 * pad_size]\<close> and
  \<open>[..., padded_image_shape - 1]\<close>) subtract one from the upper bound, and with that
  reading the regular windows have the width \<open>eval_image_size + pad_size * 2\<close> that the
  docstring promises. So a window is the closed range of indices \<open>z1, ..., z2\<close>, and its
  trimmed interior is what is left after \<open>pad_size\<close> indices are cut from both ends.
\<close>

fun window_indices :: "int list \<Rightarrow> int set" where
  "window_indices [z1, z2] = {z1..z2}"
| "window_indices w = {}"

fun interior :: "int \<Rightarrow> int list \<Rightarrow> int set" where
  "interior pad_size [z1, z2] = {z1 + pad_size..z2 - pad_size}"
| "interior pad_size w = {}"

fun window_width :: "int list \<Rightarrow> int" where
  "window_width [z1, z2] = z2 - z1 + 1"
| "window_width w = 0"

text \<open>
  The number of values \<open>torch.arange(0, image_shape, eval_image_size)\<close> returns for a
  positive step: \<open>\<lceil>image_shape / eval_image_size\<rceil>\<close>, written with floor division.
\<close>

definition n_tiles :: "int \<Rightarrow> int \<Rightarrow> nat" where
  "n_tiles I e = nat (- ((- I) div e))"

section \<open>Scale factor of a dtype: \<open>get_dtype_offset\<close> (lib/utils.py)\<close>

text \<open>
  The dictionary \<open>encoding\<close>, in the order the source writes it. \<open>image_max\<close> is an
  optional number (\<open>None\<close> by default); numbers are modelled as reals, which covers
  the integers and the finite floats. The result is \<open>None\<close> where the Python returns
  \<open>None\<close>.
\<close>

definition encoding :: "(string \<times> real) list" where
  "encoding = [(''uint16'', 2 ^ 16), (''uint8'', 2 ^ 8), (''uint12'', 2 ^ 12), (''float64'', 1)]"

text \<open>
  \<open>scale\<close> starts as \<open>None\<close> for a dtype that is not a key of the dictionary;
  \<open>if image_max:\<close> holds for a number other than zero, and not for \<open>None\<close>.
\<close>

definition get_dtype_offset :: "string \<Rightarrow> real option \<Rightarrow> real option" where
  "get_dtype_offset dtype image_max =
     (case map_of encoding dtype of
        Some scale \<Rightarrow> Some scale
      | None \<Rightarrow>
          (case image_max of
             None \<Rightarrow> None
           | Some m \<Rightarrow>
               if m \<noteq> 0 then (if m \<le> 256 then Some 256 else Some m) else None))"

section \<open>Cropping two tensors to a common size (lib/utils.py)\<close>

text \<open>
  A tensor is its shape and its elements, addressed by a list of indices, one per
  dimension. The integer arguments of \<open>_crop3d\<close> are natural numbers here: the only
  caller passes zero offsets and sizes read from a shape.
\<close>

record tensor =
  shape :: "nat list"
  elems :: "nat list \<Rightarrow> real"

text \<open>
  The number of indices the slice \<open>start : stop\<close> selects on a dimension of \<open>n\<close>
  entries, for bounds that are not negative: both bounds are clipped to \<open>n\<close>.
\<close>

definition slice_len :: "nat \<Rightarrow> nat \<Rightarrow> nat \<Rightarrow> nat" where
  "slice_len n start stop = min stop n - min start n"

text \<open>
  \<open>_crop3d\<close>: \<open>img[..., x : x + w, y : y + h, z : z + d]\<close>. The ellipsis stands for all
  leading dimensions; a tensor with fewer than three dimensions has too many indices.
\<close>

definition crop3d :: "tensor \<Rightarrow> nat \<Rightarrow> nat \<Rightarrow> nat \<Rightarrow> nat \<Rightarrow> nat \<Rightarrow> nat \<Rightarrow> error + tensor" where
  "crop3d img x y z w h d =
     (let s = shape img; n = length s
      in if n < 3 then Inl IndexError
         else Inr \<lparr>shape = take (n - 3) s @
                        [slice_len (s ! (n - 3)) x (x + w),
                         slice_len (s ! (n - 2)) y (y + h),
                         slice_len (s ! (n - 1)) z (z + d)],
                   elems = (\<lambda>idx. elems img (take (n - 3) idx @
                        [idx ! (n - 3) + x, idx ! (n - 2) + y, idx ! (n - 1) + z]))\<rparr>)"

text \<open>\<open>t.shape[-k]\<close>: the \<open>k\<close>-th dimension from the end, an error when there is none.\<close>

definition shape_from_end :: "tensor \<Rightarrow> nat \<Rightarrow> error + nat" where
  "shape_from_end t k =
     (if k = 0 \<or> length (shape t) < k then Inl IndexError
      else Inr (shape t ! (length (shape t) - k)))"

definition crop_to_identical_size :: "tensor \<Rightarrow> tensor \<Rightarrow> error + (tensor \<times> tensor)" where
  "crop_to_identical_size a b =
     (if length (shape a) < 3 then Inl RuntimeError
      else
        (case (shape_from_end b 3, shape_from_end b 2, shape_from_end b 1) of
           (Inr w, Inr h, Inr d) \<Rightarrow>
             (case crop3d a 0 0 0 w h d of
                Inl e \<Rightarrow> Inl e
              | Inr a' \<Rightarrow>
                  (case (shape_from_end a' 3, shape_from_end a' 2, shape_from_end a' 1) of
                     (Inr w', Inr h', Inr d') \<Rightarrow>
                       (case crop3d b 0 0 0 w' h' d' of
                          Inl e \<Rightarrow> Inl e
                        | Inr b' \<Rightarrow> Inr (a', b'))
                   | _ \<Rightarrow> Inl IndexError))
         | _ \<Rightarrow> Inl IndexError))"

section \<open>The instance baker: \<open>get_instance\<close> and the loop of \<open>eval\<close> (lib/eval.py)\<close>

text \<open>
  A voxel is a triple of integer coordinates, a skeleton is the list of the rows of its
  \<open>[N, 3]\<close> tensor, and the label volume \<open>instance_mask\<close> gives every voxel its label (a
  float tensor that holds integers: zero for background, otherwise an instance id).
  \<open>vshape\<close> is \<open>vectors.shape[1:]\<close>; the label volume has the same spatial shape, as in
  \<open>eval\<close>, where both come from zero tensors of one size.
\<close>

type_synonym coord = "int \<times> int \<times> int"

type_synonym volume = "coord \<Rightarrow> int"

text \<open>\<open>x.clamp(lo, hi)\<close> on one entry.\<close>

definition clamp :: "int \<Rightarrow> int \<Rightarrow> int \<Rightarrow> int" where
  "clamp lo hi x = min (max x lo) hi"

fun row_min :: "coord \<Rightarrow> coord \<Rightarrow> coord" where
  "row_min (a, b, c) (x, y, z) = (min a x, min b y, min c z)"

fun row_max :: "coord \<Rightarrow> coord \<Rightarrow> coord" where
  "row_max (a, b, c) (x, y, z) = (max a x, max b y, max c z)"

text \<open>
  \<open>t.min(0)[0]\<close> and \<open>t.max(0)[0]\<close>: the minimum and the maximum of every column. On a
  tensor without rows the reduction has nothing to return and raises.
\<close>

definition min0 :: "coord list \<Rightarrow> error + coord" where
  "min0 rows = (case rows of [] \<Rightarrow> Inl IndexError | r # rs \<Rightarrow> Inr (foldl row_min r rs))"

definition max0 :: "coord list \<Rightarrow> error + coord" where
  "max0 rows = (case rows of [] \<Rightarrow> Inl IndexError | r # rs \<Rightarrow> Inr (foldl row_max r rs))"

text \<open>
  Lines 49 to 57, the corners of the crop: every skeleton point is moved by the buffer
  \<open>(50, 50, 10)\<close> down, clamped at zero, and up, clamped to the volume; the crop runs from
  the column minima of the first to the column maxima of the second.
\<close>

definition crop_bounds :: "coord \<Rightarrow> coord list \<Rightarrow> error + (coord \<times> coord)" where
  "crop_bounds vshape skeleton =
     (case vshape of (sx, sy, sz) \<Rightarrow>
        (let ind_min = map (\<lambda>(x, y, z). (max (x - 50) 0, max (y - 50) 0, max (z - 10) 0))
                         skeleton;
             ind_max = map (\<lambda>(x, y, z). (clamp 0 sx (x + 50), clamp 0 sy (y + 50),
                                          clamp 0 sz (z + 10)))
                         skeleton
         in case min0 ind_min of
              Inl e \<Rightarrow> Inl e
            | Inr lo \<Rightarrow> (case max0 ind_max of Inl e \<Rightarrow> Inl e | Inr hi \<Rightarrow> Inr (lo, hi))))"

text \<open>
  The voxels of the crop \<open>[x0 : x1, y0 : y1, z0 : z1]\<close>, in the coordinates of the crop, and
  the test that a voxel of the volume lies in the crop.
\<close>

fun crop_coords :: "coord \<Rightarrow> coord \<Rightarrow> coord list" where
  "crop_coords (x0, y0, z0) (x1, y1, z1) =
     concat (map (\<lambda>i. concat (map (\<lambda>j. map (\<lambda>k. (i, j, k)) [0..z1 - z0 - 1])
                                    [0..y1 - y0 - 1]))
                 [0..x1 - x0 - 1])"

fun in_crop :: "coord \<Rightarrow> coord \<Rightarrow> coord \<Rightarrow> bool" where
  "in_crop (x0, y0, z0) (x1, y1, z1) (x, y, z) =
     (x0 \<le> x \<and> x < x1 \<and> y0 \<le> y \<and> y < y1 \<and> z0 \<le> z \<and> z < z1)"

fun sub_coord :: "coord \<Rightarrow> coord \<Rightarrow> coord" where
  "sub_coord (x, y, z) (x0, y0, z0) = (x - x0, y - y0, z - z0)"

text \<open>
  Lines 59 to 83 crop the vectors, turn them into an embedding (\<open>vector_to_embedding\<close>)
  and into a probability (\<open>baked_embed_to_prob\<close>); neither function is among the sources
  at hand. What the model takes from these lines is their outcome after \<open>.gt(thr)\<close>: a
  truth value for every voxel of the crop, the parameter \<open>prob_gt\<close>, taken to have the
  shape of the crop. Line 83 multiplies it by the id, line 86 compares with the id, line
  87 counts.
\<close>

definition prob_of :: "int \<Rightarrow> (coord \<Rightarrow> bool) \<Rightarrow> coord \<Rightarrow> int" where
  "prob_of inst_id prob_gt c = (if prob_gt c then inst_id else 0)"

definition index_of :: "int \<Rightarrow> (coord \<Rightarrow> bool) \<Rightarrow> coord \<Rightarrow> bool" where
  "index_of inst_id prob_gt c = (prob_of inst_id prob_gt c = inst_id)"

definition index_sum :: "int \<Rightarrow> (coord \<Rightarrow> bool) \<Rightarrow> coord \<Rightarrow> coord \<Rightarrow> int" where
  "index_sum inst_id prob_gt lo hi =
     int (length (filter (index_of inst_id prob_gt) (crop_coords lo hi)))"

text \<open>
  \<open>get_instance\<close> changes the label volume in place and returns it. The model returns
  the exception raised, if any, and the label volume as the call leaves it.
\<close>

definition get_instance ::
  "volume \<Rightarrow> coord \<Rightarrow> coord list \<Rightarrow> int \<Rightarrow> (coord \<Rightarrow> bool) \<Rightarrow> int \<Rightarrow> error option \<times> volume" where
  "get_instance instance_mask vshape skeleton inst_id prob_gt min_instance_volume =
     (case crop_bounds vshape skeleton of
        Inl e \<Rightarrow> (Some e, instance_mask)
      | Inr (ind_min, ind_max) \<Rightarrow>
          (None,
           (\<lambda>v. if in_crop ind_min ind_max v \<and> index_of inst_id prob_gt (sub_coord v ind_min)
                then (if index_sum inst_id prob_gt ind_min ind_max > min_instance_volume
                      then prob_of inst_id prob_gt (sub_coord v ind_min)
                      else 0)
                else instance_mask v)))"





section \<open>The embedding transform: \<open>vector_to_embedding\<close>\<close>

text \<open>
  A field gives every channel and voxel a number: a tensor of shape \<open>[3, X, Y, Z]\<close>.
  Numbers are reals, so the rounding of floats is not modelled.
\<close>

type_synonym field = "nat \<Rightarrow> coord \<Rightarrow> real"

text \<open>
  Modelled from the spec: the coordinate \<open>(x, y, z)\<close> of a voxel, read along axis \<open>c\<close>;
  it is the first summand of the embedding in section 4.2 of the spec. The module that
  builds it is missing (see \<open>vector_to_embedding\<close> below).
\<close>

fun mesh :: "nat \<Rightarrow> coord \<Rightarrow> real" where
  "mesh c (x, y, z) = (if c = 0 then of_int x else if c = 1 then of_int y else of_int z)"

text \<open>
  Modelled from the spec: \<open>vector_to_embedding\<close>, which \<open>get_instance\<close> calls at line
  70 and imports from \<open>skoots.lib.vector_to_embedding\<close>, a module that is not among the
  sources at hand. The spec (section 4.2): given a vector field \<open>V\<close> of shape
  \<open>[3, X, Y, Z]\<close> and a scale \<open>S\<close> with one factor per axis, the embedding field is
  \<open>E[:, x, y, z] = (x, y, z) + S * V[:, x, y, z]\<close>.
\<close>

definition vector_to_embedding :: "(nat \<Rightarrow> real) \<Rightarrow> field \<Rightarrow> field" where
  "vector_to_embedding scale vectors = (\<lambda>c v. mesh c v + scale c * vectors c v)"

section \<open>Properties of \<open>calculate_indexes\<close>\<close>

text \<open>
  While every window fits below \<open>padded_image_shape\<close>, the loop over the values
  \<open>0, e, 2 * e, ...\<close> of \<open>torch.arange\<close> emits the windows
  \<open>[k * e, (k + 1) * e - 1 + 2 * p]\<close> in order, one for each value but the last.
\<close>

lemma loop_closed:
  "\<forall>k. m < k \<and> k < n \<longrightarrow> int k * e - 1 + 2 * p < P \<Longrightarrow>
   index_loop p P (int m * e) (map (\<lambda>k. int k * e) [Suc m..<n])
     = map (\<lambda>k. [int k * e, (int k + 1) * e - 1 + 2 * p]) [m..<n - 1]"
proof (induction "n - Suc m" arbitrary: m)
  case 0
  then show ?case by simp
next
  case (Suc d)
  then have lt: "Suc m < n" by linarith
  have fit: "int (Suc m) * e - 1 + 2 * p < P" using Suc.prems lt by auto
  have step: "[Suc m..<n] = Suc m # [Suc (Suc m)..<n]" using lt by (simp add: upt_conv_Cons)
  have step2: "[m..<n - 1] = m # [Suc m..<n - 1]" using lt by (simp add: upt_conv_Cons)
  have ih: "index_loop p P (int (Suc m) * e) (map (\<lambda>k. int k * e) [Suc (Suc m)..<n])
     = map (\<lambda>k. [int k * e, (int k + 1) * e - 1 + 2 * p]) [Suc m..<n - 1]"
    using Suc.hyps(1)[of "Suc m"] Suc.hyps(2) Suc.prems by auto
  show ?case using fit ih step2 by (simp add: step algebra_simps)
qed


text \<open>The trimmed interiors of the first \<open>j\<close> regular windows are one contiguous range.\<close>

lemma interior_union:
  assumes "0 < e"
  shows "(\<Union>k\<in>{0..<j}. interior p [int k * e, (int k + 1) * e - 1 + 2 * p]) = {p..<int j * e + p}"
proof (induction j)
  case 0
  show ?case by simp
next
  case (Suc j)
  define a where "a = int j * e"
  have nonneg: "0 \<le> a" using assms by (simp add: a_def)
  have next_a: "int (Suc j) * e = a + e" by (simp add: a_def algebra_simps)
  have split: "{0..<Suc j} = insert j {0..<j}" by auto
  have "(\<Union>k\<in>{0..<Suc j}. interior p [int k * e, (int k + 1) * e - 1 + 2 * p])
        = interior p [a, a + e - 1 + 2 * p] \<union> {p..<a + p}"
    using Suc by (simp add: split a_def algebra_simps)
  also have "\<dots> = {p..<a + e + p}"
    using nonneg assms by auto
  also have "\<dots> = {p..<int (Suc j) * e + p}"
    by (simp only: next_a)
  finally show ?case .
qed


text \<open>
  When the axis is longer than one evaluation window, \<open>torch.arange\<close> returns at least
  two values, the last one lies inside the axis and one more step would leave it.
\<close>

lemma n_tiles_bounds:
  assumes "0 < e" "e < I"
  shows "2 \<le> n_tiles I e" and "int (n_tiles I e - 1) * e < I" and "I \<le> int (n_tiles I e) * e"
proof -
  define q where "q = - ((- I) div e)"
  have eq: "- I = (- q) * e + (- I) mod e" by (simp add: q_def)
  have r0: "0 \<le> (- I) mod e" and r1: "(- I) mod e < e" using assms by simp_all
  have up: "I \<le> q * e" using eq r0 by (simp add: algebra_simps) 
  have lo: "q * e - e < I" using eq r1 by (simp add: algebra_simps)
  have "e < q * e" using up assms by linarith
  have "\<not> q \<le> 1"
  proof
    assume "q \<le> 1"
    then have "q * e \<le> 1 * e" using assms(1) by (intro mult_right_mono) simp_all
    then show False using \<open>e < q * e\<close> by simp
  qed
  then have q2: "2 \<le> q" by simp
  have n: "int (n_tiles I e) = q" using q2 by (simp add: n_tiles_def q_def)
  show "2 \<le> n_tiles I e" using n q2 by linarith
  then have m: "int (n_tiles I e - 1) = q - 1" using n by linarith
  have "(q - 1) * e = q * e - e" by (simp add: algebra_simps)
  then show "int (n_tiles I e - 1) * e < I" unfolding m using lo by linarith
  show "I \<le> int (n_tiles I e) * e" using up n by simp
qed

text \<open>
  The result in closed form on an axis of \<open>I\<close> indices padded by \<open>p\<close> on both sides
  (\<open>padded_image_shape = I + 2 * p\<close>), when the axis is longer than one evaluation window:
  the regular windows, then the window that ends at the last index of the padded axis.
\<close>

lemma calculate_indexes_tiled:
  assumes "0 < e" "0 \<le> p" "e + 2 * p \<le> I" "e < I" "P = I + 2 * p"
  shows "calculate_indexes p e I P =
    Inr (map (\<lambda>k. [int k * e, (int k + 1) * e - 1 + 2 * p]) [0..<n_tiles I e - 1]
         @ [[I - e, I + 2 * p - 1]])"
proof -
  define n where "n = n_tiles I e"
  have n2: "2 \<le> n" and lo: "int (n - 1) * e < I"
    using n_tiles_bounds[OF assms(1) assms(4)] by (simp_all add: n_def)
  have ar: "torch_arange I e = Inr (map (\<lambda>k. int k * e) [0..<n])"
    using assms by (simp add: torch_arange_def n_def n_tiles_def)
  have hd: "map (\<lambda>k. int k * e) [0..<n] = 0 # map (\<lambda>k. int k * e) [Suc 0..<n]"
    using n2 by (simp add: upt_conv_Cons)
  have fits: "\<forall>k. 0 < k \<and> k < n \<longrightarrow> int k * e - 1 + 2 * p < P"
  proof (intro allI impI)
    fix k assume k: "0 < k \<and> k < n"
    then have "int k \<le> int (n - 1)" by linarith
    then have "int k * e \<le> int (n - 1) * e" using assms(1) by (simp add: mult_right_mono)
    then show "int k * e - 1 + 2 * p < P" using lo assms(5) by linarith
  qed
  have loop: "index_loop p P 0 (map (\<lambda>k. int k * e) [Suc 0..<n])
      = map (\<lambda>k. [int k * e, (int k + 1) * e - 1 + 2 * p]) [0..<n - 1]"
    using loop_closed[of 0 n e p P] fits by simp
  have ne: "map (\<lambda>k. [int k * e, (int k + 1) * e - 1 + 2 * p]) [0..<n - 1] \<noteq> []"
    using n2 by simp
  have loop': "index_loop p (I + 2 * p) 0 (map (\<lambda>k. int k * e) [Suc 0..<n])
      = map (\<lambda>k. [int k * e, (int k + 1) * e - 1 + 2 * p]) [0..<n - 1]"
    using loop assms(5) by simp
  have "calculate_indexes p e I (I + 2 * p) =
    Inr (map (\<lambda>k. [int k * e, (int k + 1) * e - 1 + 2 * p]) [0..<n - 1]
         @ [[I - e, I + 2 * p - 1]])"
    using assms(3) ne by (simp add: calculate_indexes_def ar hd loop' Let_def)
  then show ?thesis by (simp add: assms(5) n_def)
qed


lemma regular_interior:
  "interior p [int k * e, (int k + 1) * e - 1 + 2 * p] = {int k * e + p..<int k * e + e + p}"
  by (auto simp: algebra_simps)

lemma regular_disjoint:
  assumes "0 < e" "i < j"
  shows "{int i * e + p..<int i * e + e + p} \<inter> {int j * e + p..<int j * e + e + p} = {}"
proof -
  have "int i + 1 \<le> int j" using assms(2) by simp
  then have "(int i + 1) * e \<le> int j * e" using assms(1) by (intro mult_right_mono) simp_all
  then have "int i * e + e \<le> int j * e" by (simp add: algebra_simps)
  then show ?thesis by auto
qed

lemma exact_multiple:
  assumes "0 < e" "e < I" "e dvd I"
  shows "I = int (n_tiles I e) * e"
proof -
  obtain c where c: "I = e * c" using assms(3) by (auto simp: dvd_def)
  have neg: "- I = e * (- c)" by (simp add: c)
  have e0: "e \<noteq> 0" using assms(1) by simp
  have "(e * (- c)) div e = - c" using e0 by (rule nonzero_mult_div_cancel_left)
  then have "(- I) div e = - c" by (simp only: neg)
  then have "- ((- I) div e) = c" by simp
  moreover have "0 < c" using assms c by (simp add: zero_less_mult_iff)
  ultimately have "int (n_tiles I e) = c" by (simp add: n_tiles_def)
  then show ?thesis by (simp add: c)
qed

text \<open>
  Claim C1, as amended. The claim reads: for valid parameters the trimmed interiors of the
  windows cover the axis exactly, no index twice and none missed. The code appends the
  window snapped to the end of the axis whether or not the regular windows already end
  there (its comment: ``we always add at the end to ensure that the whole thing is
  covered''), so an index can lie in two interiors. What holds, for a window of
  \<open>e > 0\<close> indices, a halo \<open>p \<ge> 0\<close>, an axis of \<open>I > e\<close> indices with
  \<open>e + 2 * p \<le> I\<close>, padded to \<open>I + 2 * p\<close>:
  \<^item> the call returns windows, and the union of their trimmed interiors is exactly the
    unpadded axis, which is the range \<open>p, ..., p + I - 1\<close> of the padded axis: no index is
    missed and none outside the axis is covered;
  \<^item> the interiors of the windows before the last one are pairwise disjoint: only the
    last window can cover an index a second time;
  \<^item> when \<open>e\<close> divides \<open>I\<close> all interiors are pairwise disjoint, so the cover is exact.
\<close>

theorem calculate_indexes_coverage:
  assumes "0 < e" "0 \<le> p" "e + 2 * p \<le> I" "e < I"
  shows "\<exists>ws. calculate_indexes p e I (I + 2 * p) = Inr ws
          \<and> (\<Union>w\<in>set ws. interior p w) = {p..<p + I}
          \<and> (\<forall>i j. i < j \<and> j < length ws - 1 \<longrightarrow>
                 interior p (ws ! i) \<inter> interior p (ws ! j) = {})
          \<and> (e dvd I \<longrightarrow> (\<forall>i j. i < j \<and> j < length ws \<longrightarrow>
                 interior p (ws ! i) \<inter> interior p (ws ! j) = {}))"
proof -
  define n where "n = n_tiles I e"
  define f where "f = (\<lambda>k. [int k * e, (int k + 1) * e - 1 + 2 * p])"
  define fin where "fin = [I - e, I + 2 * p - 1]"
  define ws where "ws = map f [0..<n - 1] @ [fin]"
  define a where "a = int (n - 1) * e"
  have n2: "2 \<le> n" and lo: "a < I" and up: "I \<le> int n * e"
    using n_tiles_bounds[OF assms(1) assms(4)] by (simp_all add: n_def a_def)
  have res: "calculate_indexes p e I (I + 2 * p) = Inr ws"
    using calculate_indexes_tiled[OF assms, of "I + 2 * p"]
    by (simp add: ws_def f_def fin_def n_def)
  have len: "length ws = n" using n2 by (simp add: ws_def)
  have reg: "ws ! i = f i" if "i < n - 1" for i
    using that by (simp add: ws_def nth_append)
  have lst: "ws ! (n - 1) = fin"
    by (simp add: ws_def nth_append)
  have int_f: "interior p (f k) = {int k * e + p..<int k * e + e + p}" for k
    unfolding f_def by (rule regular_interior)
  have int_fin: "interior p fin = {I - e + p..<I + p}"
    by (auto simp: fin_def)
  have split: "int n * e = a + e"
  proof -
    obtain m where m: "n = Suc m" using n2 by (cases n) simp_all
    show ?thesis unfolding a_def m by (simp add: algebra_simps)
  qed
  have up': "I \<le> a + e" using up split by simp
  have "(\<Union>w\<in>set ws. interior p w)
          = (\<Union>k\<in>{0..<n - 1}. interior p (f k)) \<union> interior p fin"
    by (auto simp: ws_def)
  also have "\<dots> = {p..<a + p} \<union> {I - e + p..<I + p}"
    using interior_union[OF assms(1), of p "n - 1"] int_fin by (simp add: f_def a_def)
  also have "\<dots> = {p..<p + I}"
    using lo up' assms(4) by auto
  finally have cover: "(\<Union>w\<in>set ws. interior p w) = {p..<p + I}" .
  have dis_reg: "interior p (ws ! i) \<inter> interior p (ws ! j) = {}"
    if "i < j" "j < n - 1" for i j
  proof -
    have "i < n - 1" using that by linarith
    then show ?thesis
      using regular_disjoint[OF assms(1) that(1), of p] that(2) by (simp add: reg int_f)
  qed
  have dis_all: "interior p (ws ! i) \<inter> interior p (ws ! j) = {}"
    if d: "e dvd I" and ij: "i < j" "j < n" for i j
  proof (cases "j < n - 1")
    case True
    then show ?thesis using dis_reg ij(1) by simp
  next
    case False
    then have j: "j = n - 1" using ij(2) by linarith
    have i: "i < n - 1" using ij(1) j by simp
    have I: "I = a + e"
      using exact_multiple[OF assms(1) assms(4) d] split by (simp add: n_def)
    have "interior p fin = {a + p..<a + e + p}"
      unfolding int_fin by (simp add: I)
    then have "interior p fin = {int (n - 1) * e + p..<int (n - 1) * e + e + p}"
      by (simp only: a_def)
    then have wj: "interior p (ws ! j) = {int (n - 1) * e + p..<int (n - 1) * e + e + p}"
      by (simp only: j lst)
    have wi: "interior p (ws ! i) = {int i * e + p..<int i * e + e + p}"
      by (simp only: reg[OF i] int_f)
    show ?thesis
      unfolding wi wj by (rule regular_disjoint[OF assms(1) i])
  qed
  show ?thesis
    using res cover dis_reg dis_all by (intro exI[of _ ws]) (simp add: len)
qed


text \<open>
  Witness for C1: a halo of 1, a window of 3 and an axis of 10 indices padded to 12
  satisfy the hypotheses, and the interiors cover the indices 1 to 10.
\<close>

theorem calculate_indexes_coverage_witness:
  "\<exists>ws. calculate_indexes 1 3 10 12 = Inr ws \<and> (\<Union>w\<in>set ws. interior 1 w) = {1..<11}"
proof -
  have "\<exists>ws. calculate_indexes 1 3 10 (10 + 2 * 1) = Inr ws
          \<and> (\<Union>w\<in>set ws. interior 1 w) = {1..<1 + 10}
          \<and> (\<forall>i j. i < j \<and> j < length ws - 1 \<longrightarrow>
                 interior 1 (ws ! i) \<inter> interior 1 (ws ! j) = {})
          \<and> ((3::int) dvd 10 \<longrightarrow> (\<forall>i j. i < j \<and> j < length ws \<longrightarrow>
                 interior 1 (ws ! i) \<inter> interior 1 (ws ! j) = {}))"
    by (rule calculate_indexes_coverage) simp_all
  then obtain ws where "calculate_indexes 1 3 10 (10 + 2 * 1) = Inr ws"
    and "(\<Union>w\<in>set ws. interior 1 w) = {1..<1 + 10}"
    by blast
  then show ?thesis by simp
qed

text \<open>
  Counterexample to C1 as stated: with a halo of 1, a window of 3 and an axis of 10
  indices padded to 12 (the halo is at most half the window), the call returns four
  windows, and index 8 lies in the trimmed interior of the third and of the fourth.
\<close>

theorem calculate_indexes_overlap_counterexample:
  "calculate_indexes 1 3 10 12 = Inr [[0, 4], [3, 7], [6, 10], [7, 11]]
   \<and> 8 \<in> interior 1 [6, 10] \<and> 8 \<in> interior 1 [7, 11]"
  by (simp add: calculate_indexes_def torch_arange_def upt_conv_Cons)

text \<open>
  Claim C3, as amended. When \<open>eval_image_size + 2 * pad_size > image_shape\<close> the call
  returns exactly one window, \<open>[0, image_shape - 1]\<close>, whatever \<open>padded_image_shape\<close>
  is. The window itself is the whole unpadded axis \<open>0, ..., image_shape - 1\<close>. Its trimmed
  interior is \<open>pad_size, ..., image_shape - 1 - pad_size\<close>: it is the whole axis when the
  halo is zero, and not otherwise (the counterexample below).
\<close>

theorem calculate_indexes_single_window:
  assumes "image_shape < eval_image_size + 2 * pad_size"
  shows "calculate_indexes pad_size eval_image_size image_shape padded_image_shape
           = Inr [[0, image_shape - 1]]
         \<and> window_indices [0, image_shape - 1] = {0..<image_shape}
         \<and> interior pad_size [0, image_shape - 1] = {pad_size..<image_shape - pad_size}
         \<and> (pad_size = 0 \<longrightarrow> interior pad_size [0, image_shape - 1] = {0..<image_shape})"
  using assms by (auto simp: calculate_indexes_def)

text \<open>
  Witness for C3: a halo of 1, a window of 3 and an axis of 4 indices satisfy
  \<open>3 + 2 * 1 > 4\<close>.
\<close>

theorem calculate_indexes_single_window_witness:
  "calculate_indexes 1 3 4 6 = Inr [[0, 3]] \<and> window_indices [0, 3] = {0..<4}
   \<and> interior 1 [0, 3] = {1..<3}"
  using calculate_indexes_single_window[of 4 3 1 6] by simp

text \<open>
  Counterexample to C3 as stated: with a halo of 1, a window of 3 and an axis of 4
  indices, the single window is \<open>[0, 3]\<close> and its trimmed interior misses the indices 0
  and 3 of the axis.
\<close>

theorem calculate_indexes_single_window_counterexample:
  "calculate_indexes 1 3 4 6 = Inr [[0, 3]] \<and> 0 \<notin> interior 1 [0, 3] \<and> 3 \<notin> interior 1 [0, 3]"
  by (simp add: calculate_indexes_def)

text \<open>
  Claim C4. With at least one regular window, the last window returned is
  \<open>[padded_image_shape - (e + 2 * p), padded_image_shape - 1]\<close>: it ends at the last index
  of the padded axis and has the width \<open>e + 2 * p\<close> of the regular windows
  (\<open>calculate_indexes_tiled\<close>). The branch taken when the loop emits no window builds its
  two windows without the \<open>- 1\<close>: with no halo and an axis of exactly one window
  (\<open>image_shape = eval_image_size = padded_image_shape = 5\<close>) the call returns \<open>[0, 5]\<close>
  twice, a window that holds index 5, one past the last index 4 of the axis, and that is
  6 indices wide where the docstring promises \<open>eval_image_size + pad_size * 2 = 5\<close>.
  With the same window and halo on an axis of 10 indices the other branch returns
  \<open>[0, 4]\<close> and \<open>[5, 9]\<close>, both 5 wide, the last one ending at the last index 9.
\<close>

theorem calculate_indexes_fallback_off_by_one:
  "calculate_indexes 0 5 5 5 = Inr [[0, 5], [0, 5]]
   \<and> 5 \<in> window_indices [0, 5] \<and> window_width [0, 5] = 6
   \<and> calculate_indexes 0 5 10 10 = Inr [[0, 4], [5, 9]]
   \<and> window_width [0, 4] = 5 \<and> window_width [5, 9] = 5"
  by (simp add: calculate_indexes_def torch_arange_def upt_conv_Cons)

section \<open>Properties of \<open>get_dtype_offset\<close>\<close>

text \<open>
  Claim C6. For each of the four supported dtype strings the result is the divisor of the
  table, 256 for uint8, 65536 for uint16, 4096 for uint12 and 1 for float64, whatever
  \<open>image_max\<close> is. For any other dtype string and a positive image maximum \<open>m\<close> the
  result is 256 when \<open>m\<close> is at most 256, and \<open>m\<close> itself otherwise.
\<close>

theorem get_dtype_offset_table:
  "get_dtype_offset ''uint8'' image_max = Some 256
   \<and> get_dtype_offset ''uint16'' image_max = Some 65536
   \<and> get_dtype_offset ''uint12'' image_max = Some 4096
   \<and> get_dtype_offset ''float64'' image_max = Some 1
   \<and> (dtype \<notin> {''uint8'', ''uint16'', ''uint12'', ''float64''} \<and> 0 < m \<longrightarrow>
        get_dtype_offset dtype (Some m) = Some (if m \<le> 256 then 256 else m))"
  by (simp add: get_dtype_offset_def encoding_def)

text \<open>
  Witness for C6: the unsupported dtype int32 with the maxima 1000 and 100, and the
  supported dtype uint12.
\<close>

theorem get_dtype_offset_table_witness:
  "get_dtype_offset ''int32'' (Some 1000) = Some 1000
   \<and> get_dtype_offset ''int32'' (Some 100) = Some 256
   \<and> get_dtype_offset ''uint12'' (Some 100) = Some 4096"
  using get_dtype_offset_table[of "Some 100" "''int32''" 1000]
        get_dtype_offset_table[of "Some 100" "''int32''" 100]
  by simp

text \<open>
  Claim C9. For a dtype string that is not supported, the result is \<open>None\<close> when no image
  maximum is given and when the maximum given is zero. A number is returned exactly when
  the dtype is supported or the image maximum is a number other than zero. (What a caller
  that divides by \<open>None\<close> then meets is Python's \<open>TypeError\<close>, outside this function.)
\<close>

theorem get_dtype_offset_none:
  "(dtype \<notin> {''uint8'', ''uint16'', ''uint12'', ''float64''} \<longrightarrow>
      get_dtype_offset dtype None = None \<and> get_dtype_offset dtype (Some 0) = None)
   \<and> (get_dtype_offset dtype image_max \<noteq> None \<longleftrightarrow>
        dtype \<in> {''uint8'', ''uint16'', ''uint12'', ''float64''}
        \<or> (\<exists>m. image_max = Some m \<and> m \<noteq> 0))"
  by (auto simp: get_dtype_offset_def encoding_def split: option.splits)

text \<open>
  Witness for C9: the unsupported dtype int32 without a maximum, with the maximum 0 and
  with the maximum 3.
\<close>

theorem get_dtype_offset_none_witness:
  "get_dtype_offset ''int32'' None = None \<and> get_dtype_offset ''int32'' (Some 0) = None
   \<and> get_dtype_offset ''int32'' (Some 3) \<noteq> None"
  using get_dtype_offset_none[of "''int32''" None] get_dtype_offset_none[of "''int32''" "Some 3"]
  by simp

section \<open>Properties of \<open>crop_to_identical_size\<close>\<close>

text \<open>
  Claim C10. When \<open>a\<close> and \<open>b\<close> both have at least three dimensions, the call returns
  two tensors; each keeps the leading dimensions of its argument, and the last three
  dimensions of both are the minima of the corresponding dimensions of \<open>a\<close> and \<open>b\<close>.
  When \<open>a\<close> has fewer than three dimensions the call raises \<open>RuntimeError\<close>.
\<close>

theorem crop_to_identical_size_shapes:
  "(3 \<le> length (shape a) \<and> 3 \<le> length (shape b) \<longrightarrow>
      (\<exists>a' b'. crop_to_identical_size a b = Inr (a', b')
         \<and> shape a' = take (length (shape a) - 3) (shape a) @
               [min (shape a ! (length (shape a) - 3)) (shape b ! (length (shape b) - 3)),
                min (shape a ! (length (shape a) - 2)) (shape b ! (length (shape b) - 2)),
                min (shape a ! (length (shape a) - 1)) (shape b ! (length (shape b) - 1))]
         \<and> shape b' = take (length (shape b) - 3) (shape b) @
               [min (shape a ! (length (shape a) - 3)) (shape b ! (length (shape b) - 3)),
                min (shape a ! (length (shape a) - 2)) (shape b ! (length (shape b) - 2)),
                min (shape a ! (length (shape a) - 1)) (shape b ! (length (shape b) - 1))]))
   \<and> (length (shape a) < 3 \<longrightarrow> crop_to_identical_size a b = Inl RuntimeError)"
  by (auto simp: crop_to_identical_size_def crop3d_def shape_from_end_def slice_len_def Let_def
        nth_append min.commute)

text \<open>
  Witness for C10: a tensor of shape \<open>[2, 5, 6, 7]\<close> and one of shape \<open>[4, 8, 3]\<close> are
  cropped to the shapes \<open>[2, 4, 6, 3]\<close> and \<open>[4, 6, 3]\<close>; a first argument of shape
  \<open>[5, 6]\<close> raises \<open>RuntimeError\<close>.
\<close>

theorem crop_to_identical_size_shapes_witness:
  "(\<exists>a' b'. crop_to_identical_size \<lparr>shape = [2, 5, 6, 7], elems = (\<lambda>i. 0)\<rparr>
                                     \<lparr>shape = [4, 8, 3], elems = (\<lambda>i. 0)\<rparr> = Inr (a', b')
       \<and> shape a' = [2, 4, 6, 3] \<and> shape b' = [4, 6, 3])
   \<and> crop_to_identical_size \<lparr>shape = [5, 6], elems = (\<lambda>i. 0)\<rparr>
                             \<lparr>shape = [4, 8, 3], elems = (\<lambda>i. 0)\<rparr> = Inl RuntimeError"
  using crop_to_identical_size_shapes[of "\<lparr>shape = [2, 5, 6, 7], elems = (\<lambda>i. 0)\<rparr>"
                                         "\<lparr>shape = [4, 8, 3], elems = (\<lambda>i. 0)\<rparr>"]
        crop_to_identical_size_shapes[of "\<lparr>shape = [5, 6], elems = (\<lambda>i. 0)\<rparr>"
                                         "\<lparr>shape = [4, 8, 3], elems = (\<lambda>i. 0)\<rparr>"]
  by simp

section \<open>Properties of \<open>get_instance\<close> and of the baking loop\<close>









text \<open>
  Claim C8. A call with an empty skeleton raises when line 56 takes the column minima of
  a tensor without rows, before lines 88 to 98 assign anything: the label volume is left
  as it was.
\<close>

theorem get_instance_empty_skeleton:
  "get_instance instance_mask vshape [] inst_id prob_gt min_instance_volume
     = (Some IndexError, instance_mask)"
  by (simp add: get_instance_def crop_bounds_def min0_def split: prod.splits)

section \<open>Properties of \<open>vector_to_embedding\<close>\<close>

text \<open>
  Claim C5. For every vector field \<open>V\<close>, scale \<open>S\<close> and voxel \<open>(x, y, z)\<close> the three
  channels of the embedding at the voxel are \<open>x + S 0 * V 0 (x, y, z)\<close>,
  \<open>y + S 1 * V 1 (x, y, z)\<close> and \<open>z + S 2 * V 2 (x, y, z)\<close>. The transform is elementwise:
  the embedding at a voxel depends on the vector field at that voxel only. (It is a
  function of its two arguments, so it reads and writes no other state.)
\<close>

theorem vector_to_embedding_elementwise:
  "vector_to_embedding S V 0 (x, y, z) = of_int x + S 0 * V 0 (x, y, z)
   \<and> vector_to_embedding S V 1 (x, y, z) = of_int y + S 1 * V 1 (x, y, z)
   \<and> vector_to_embedding S V 2 (x, y, z) = of_int z + S 2 * V 2 (x, y, z)
   \<and> ((\<forall>c. V c v = V' c v) \<longrightarrow>
        (\<forall>c. vector_to_embedding S V c v = vector_to_embedding S V' c v))"
  by (simp add: vector_to_embedding_def)

text \<open>
  Witness for C5: the scale \<open>(60, 60, 6)\<close> of \<open>eval\<close> and a field that is
  \<open>1 / 2\<close> everywhere, at the voxel \<open>(3, 4, 5)\<close>; a second field that agrees with the
  first at this voxel and nowhere else gives the same embedding there.
\<close>

theorem vector_to_embedding_elementwise_witness:
  "vector_to_embedding (\<lambda>c. if c = 2 then 6 else 60) (\<lambda>c v. 1 / 2) 0 (3, 4, 5) = 33
   \<and> vector_to_embedding (\<lambda>c. if c = 2 then 6 else 60) (\<lambda>c v. 1 / 2) 1 (3, 4, 5) = 34
   \<and> vector_to_embedding (\<lambda>c. if c = 2 then 6 else 60) (\<lambda>c v. 1 / 2) 2 (3, 4, 5) = 8
   \<and> vector_to_embedding (\<lambda>c. if c = 2 then 6 else 60)
        (\<lambda>c v. if v = (3, 4, 5) then 1 / 2 else 0) 0 (3, 4, 5) = 33"
proof -
  define S :: "nat \<Rightarrow> real" where "S = (\<lambda>c. if c = 2 then 6 else 60)"
  define V :: field where "V = (\<lambda>c v. 1 / 2)"
  define V' :: field where "V' = (\<lambda>c v. if v = (3, 4, 5) then 1 / 2 else 0)"
  have t: "vector_to_embedding S V 0 (3, 4, 5) = of_int 3 + S 0 * V 0 (3, 4, 5)
     \<and> vector_to_embedding S V 1 (3, 4, 5) = of_int 4 + S 1 * V 1 (3, 4, 5)
     \<and> vector_to_embedding S V 2 (3, 4, 5) = of_int 5 + S 2 * V 2 (3, 4, 5)
     \<and> ((\<forall>c. V c (3, 4, 5) = V' c (3, 4, 5)) \<longrightarrow>
          (\<forall>c. vector_to_embedding S V c (3, 4, 5) = vector_to_embedding S V' c (3, 4, 5)))"
    by (rule vector_to_embedding_elementwise)
  have agree: "\<forall>c. V c (3, 4, 5) = V' c (3, 4, 5)"
    by (simp add: V_def V'_def)
  have e0: "vector_to_embedding S V 0 (3, 4, 5) = 33"
    and e1: "vector_to_embedding S V 1 (3, 4, 5) = 34"
    and e2: "vector_to_embedding S V 2 (3, 4, 5) = 8"
    using t by (simp_all add: S_def V_def)
  have "vector_to_embedding S V' 0 (3, 4, 5) = vector_to_embedding S V 0 (3, 4, 5)"
    using t agree by metis
  then have e3: "vector_to_embedding S V' 0 (3, 4, 5) = 33"
    using e0 by simp
  show ?thesis
    using e0 e1 e2 e3 unfolding S_def V_def V'_def by blast
qed

end
